theory Spec2Isabelle
  imports Complex_Main "HOL-Library.Monad_Syntax"
begin

section \<open>Numbers of the tables\<close>

text \<open>
  The numeric columns of the tables are float64 columns. A cell is modelled as a finite
  number, one of the two infinities, or NaN (which pandas also uses for "absent").
  Finite arithmetic is exact (a finite cell is a real number: no rounding, no overflow,
  no underflow, no negative zero); the special values follow IEEE 754 as numpy applies
  them, where a division by zero is a value (and a warning), never an exception.
\<close>

datatype fl = Fin real | PInf | NInf | NaN

fun fl_neg :: "fl \<Rightarrow> fl" where
  "fl_neg (Fin a) = Fin (- a)"
| "fl_neg PInf = NInf"
| "fl_neg NInf = PInf"
| "fl_neg NaN = NaN"

fun fl_add :: "fl \<Rightarrow> fl \<Rightarrow> fl" where
  "fl_add NaN _ = NaN"
| "fl_add _ NaN = NaN"
| "fl_add (Fin a) (Fin b) = Fin (a + b)"
| "fl_add PInf NInf = NaN"
| "fl_add NInf PInf = NaN"
| "fl_add PInf _ = PInf"
| "fl_add _ PInf = PInf"
| "fl_add NInf _ = NInf"
| "fl_add _ NInf = NInf"

definition fl_sub :: "fl \<Rightarrow> fl \<Rightarrow> fl" where
  "fl_sub x y = fl_add x (fl_neg y)"

text \<open>The sign of a cell that is not NaN: \<open>-1\<close>, \<open>0\<close> or \<open>1\<close>.\<close>

fun fl_sign :: "fl \<Rightarrow> int" where
  "fl_sign (Fin a) = (if a < 0 then - 1 else if a = 0 then 0 else 1)"
| "fl_sign PInf = 1"
| "fl_sign NInf = - 1"
| "fl_sign NaN = 0"

definition signed_inf :: "int \<Rightarrow> fl" where
  "signed_inf s = (if s = 0 then NaN else if 0 < s then PInf else NInf)"

fun fl_mul :: "fl \<Rightarrow> fl \<Rightarrow> fl" where
  "fl_mul NaN _ = NaN"
| "fl_mul _ NaN = NaN"
| "fl_mul (Fin a) (Fin b) = Fin (a * b)"
| "fl_mul x y = signed_inf (fl_sign x * fl_sign y)"

fun fl_div :: "fl \<Rightarrow> fl \<Rightarrow> fl" where
  "fl_div NaN _ = NaN"
| "fl_div _ NaN = NaN"
| "fl_div (Fin a) (Fin b) = (if b = 0 then signed_inf (fl_sign (Fin a)) else Fin (a / b))"
| "fl_div (Fin a) _ = Fin 0"
| "fl_div x (Fin b) = signed_inf (fl_sign x * (if b < 0 then - 1 else 1))"
| "fl_div _ _ = NaN"

text \<open>Comparisons: every comparison with NaN is false.\<close>

fun fl_gt :: "fl \<Rightarrow> fl \<Rightarrow> bool" where
  "fl_gt NaN _ = False"
| "fl_gt _ NaN = False"
| "fl_gt (Fin a) (Fin b) = (b < a)"
| "fl_gt PInf PInf = False"
| "fl_gt PInf _ = True"
| "fl_gt _ PInf = False"
| "fl_gt NInf _ = False"
| "fl_gt _ NInf = True"

definition fl_lt :: "fl \<Rightarrow> fl \<Rightarrow> bool" where
  "fl_lt x y = fl_gt y x"

definition fl_le :: "fl \<Rightarrow> fl \<Rightarrow> bool" where
  "fl_le x y = (x \<noteq> NaN \<and> y \<noteq> NaN \<and> \<not> fl_gt x y)"

definition isna :: "fl \<Rightarrow> bool" where
  "isna x = (x = NaN)"

definition notna :: "fl \<Rightarrow> bool" where
  "notna x = (x \<noteq> NaN)"

definition fillna :: "fl \<Rightarrow> fl \<Rightarrow> fl" where
  "fillna v x = (if isna x then v else x)"

text \<open>\<open>Series.replace([np.inf, -np.inf], np.nan)\<close>, on one cell.\<close>

definition replace_inf :: "fl \<Rightarrow> fl" where
  "replace_inf x = (if x = PInf \<or> x = NInf then NaN else x)"

text \<open>\<open>np.where(c, a, b)\<close> on one row: both branches are computed, one is kept.\<close>

definition np_where :: "bool \<Rightarrow> 'a \<Rightarrow> 'a \<Rightarrow> 'a" where
  "np_where c a b = (if c then a else b)"

text \<open>\<open>Series.clip(lo, hi)\<close> on one cell: NaN stays NaN.\<close>

definition clip :: "real \<Rightarrow> real \<Rightarrow> fl \<Rightarrow> fl" where
  "clip lo hi x =
     (let y = (if fl_lt x (Fin lo) then Fin lo else x)
      in if fl_gt y (Fin hi) then Fin hi else y)"

text \<open>Rounding to the nearest integer, ties to the even one (\<open>np.rint\<close>).\<close>

definition rint :: "real \<Rightarrow> int" where
  "rint x =
     (let f = \<lfloor>x\<rfloor>; d = x - of_int f
      in if d < 1 / 2 then f
         else if 1 / 2 < d then f + 1
         else if even f then f else f + 1)"

text \<open>\<open>Series.round(1)\<close> on one cell: \<open>rint(x * 10) / 10\<close>.\<close>

fun round1 :: "fl \<Rightarrow> fl" where
  "round1 (Fin a) = Fin (of_int (rint (a * 10)) / 10)"
| "round1 x = x"

fun is_finite :: "fl \<Rightarrow> bool" where
  "is_finite (Fin a) = True"
| "is_finite _ = False"

section \<open>The tables\<close>

text \<open>
  A table is the list of its rows, in index order; a row is a record of its columns.
  The revenue table of the data provider has the columns of \<open>fee\<close>, the protocol table
  those of \<open>protocol\<close>. A \<open>symbol\<close> that is \<open>None\<close> is a missing value (the code tests
  \<open>pd.notna\<close> on it).
\<close>

record fee =
  name :: string
  symbol :: "string option"
  total24h :: fl
  total7d :: fl
  total30d :: fl

record protocol =
  name :: string
  symbol :: "string option"
  tvl :: fl
  mcap :: fl
  category :: "string option"
  chains :: "string list option"
  primary_chain :: string

text \<open>The table returned by \<open>merge_datasets\<close>: the protocol columns and the three revenue columns.\<close>

record merged_row = protocol +
  total24h :: fl
  total7d :: fl
  total30d :: fl

text \<open>The table returned by \<open>calculate_financial_metrics\<close>.\<close>

record metrics_row = merged_row +
  annualized_revenue :: fl
  ps_ratio :: fl
  ps_ratio_calc :: fl
  sector_median_ps :: fl
  fair_value :: fl
  upside_potential :: fl

text \<open>The table returned by \<open>calculate_venture_score\<close>.\<close>

record scored_row = metrics_row +
  valuation_score :: fl
  daily_avg_7d :: fl
  revenue_trend :: fl
  revenue_trend_status :: string
  trend_score :: fl
  tvl_mcap_ratio :: fl
  efficiency_score :: fl
  venture_score :: fl

section \<open>utils/consts.py\<close>

definition VALUATION_GAP_WEIGHT :: real where
  "VALUATION_GAP_WEIGHT = 40 / 100"

definition REVENUE_TREND_WEIGHT :: real where
  "REVENUE_TREND_WEIGHT = 30 / 100"

definition SIZE_EFFICIENCY_WEIGHT :: real where
  "SIZE_EFFICIENCY_WEIGHT = 30 / 100"

section \<open>utils/metrics.py: calculate_financial_metrics\<close>

text \<open>Lines 13-17: the annualized revenue of a row.\<close>

definition annualized_revenue_of :: "'a merged_row_scheme \<Rightarrow> fl" where
  "annualized_revenue_of r =
     np_where (fl_gt (total30d r) (Fin 0))
       (fl_mul (total30d r) (Fin 12))
       (fl_mul (total24h r) (Fin 365))"

text \<open>Lines 21-25: the P/S ratio of a row.\<close>

definition ps_ratio_of :: "'a merged_row_scheme \<Rightarrow> fl" where
  "ps_ratio_of r =
     np_where (fl_gt (annualized_revenue_of r) (Fin 0))
       (fl_div (mcap r) (annualized_revenue_of r))
       PInf"

text \<open>Line 28.\<close>

definition ps_ratio_calc_of :: "'a merged_row_scheme \<Rightarrow> fl" where
  "ps_ratio_calc_of r = replace_inf (ps_ratio_of r)"

text \<open>
  \<open>Series.median()\<close>: NaN cells are skipped, the rest is sorted, and the middle cell
  (or the mean of the two middle cells) is the result; the median of nothing is NaN.
  The series given to it at line 32 holds finite cells only (lemma \<open>valid_ps_cell_iff\<close>
  below), so the infinities need no place in the order here.
\<close>

definition median :: "real list \<Rightarrow> real" where
  "median xs =
     (let s = sort xs; n = length s
      in if odd n then s ! (n div 2)
         else (s ! (n div 2 - 1) + s ! (n div 2)) / 2)"

fun finite_cells :: "fl list \<Rightarrow> real list" where
  "finite_cells [] = []"
| "finite_cells (Fin a # xs) = a # finite_cells xs"
| "finite_cells (_ # xs) = finite_cells xs"

definition series_median :: "fl list \<Rightarrow> fl" where
  "series_median xs =
     (if finite_cells xs = [] then NaN else Fin (median (finite_cells xs)))"

text \<open>Line 31: the mask of the rows that enter the sector median, on one cell.\<close>

definition valid_ps_cell :: "fl \<Rightarrow> bool" where
  "valid_ps_cell c = (notna c \<and> fl_gt c (Fin 0) \<and> fl_lt c (Fin 1000))"

text \<open>Lines 31-32: the sector median of a batch, a single scalar.\<close>

definition sector_median_ps_of :: "'a merged_row_scheme list \<Rightarrow> fl" where
  "sector_median_ps_of df =
     (let valid_ps = filter valid_ps_cell (map ps_ratio_calc_of df)
      in if 0 < length valid_ps then series_median valid_ps else Fin 10)"

text \<open>Line 38 and lines 41-45, given the scalar of line 32.\<close>

definition fair_value_of :: "fl \<Rightarrow> 'a merged_row_scheme \<Rightarrow> fl" where
  "fair_value_of m r = fl_mul (annualized_revenue_of r) m"

definition upside_potential_of :: "fl \<Rightarrow> 'a merged_row_scheme \<Rightarrow> fl" where
  "upside_potential_of m r =
     np_where (fl_gt (mcap r) (Fin 0))
       (fl_mul (fl_div (fl_sub (fair_value_of m r) (mcap r)) (mcap r)) (Fin 100))
       (Fin 0)"

definition metrics_of :: "fl \<Rightarrow> merged_row \<Rightarrow> metrics_row" where
  "metrics_of m r =
     merged_row.extend r
       (metrics_row.fields (annualized_revenue_of r) (ps_ratio_of r) (ps_ratio_calc_of r)
          m (fair_value_of m r) (upside_potential_of m r))"

definition calculate_financial_metrics :: "merged_row list \<Rightarrow> metrics_row list" where
  "calculate_financial_metrics df = map (metrics_of (sector_median_ps_of df)) df"

section \<open>utils/metrics.py: calculate_venture_score\<close>

text \<open>Lines 58-60.\<close>

definition valuation_score_of :: "'a metrics_row_scheme \<Rightarrow> fl" where
  "valuation_score_of r =
     fl_mul (fl_div (fl_add (clip (- 100) 200 (upside_potential r)) (Fin 100)) (Fin 300))
       (Fin (VALUATION_GAP_WEIGHT * 100))"

text \<open>Line 64.\<close>

definition daily_avg_7d_of :: "'a merged_row_scheme \<Rightarrow> fl" where
  "daily_avg_7d_of r = fl_div (total7d r) (Fin 7)"

text \<open>Lines 67-71.\<close>

definition revenue_trend_of :: "'a merged_row_scheme \<Rightarrow> fl" where
  "revenue_trend_of r =
     np_where (fl_gt (daily_avg_7d_of r) (Fin 0))
       (fl_mul (fl_div (fl_sub (total24h r) (daily_avg_7d_of r)) (daily_avg_7d_of r)) (Fin 100))
       (Fin 0)"

text \<open>Lines 74-78.\<close>

definition revenue_trend_status_of :: "'a merged_row_scheme \<Rightarrow> string" where
  "revenue_trend_status_of r =
     np_where (fl_gt (total7d r) (Fin 0)) ''Calculated'' ''Insufficient Data''"

text \<open>Lines 81-82.\<close>

definition trend_score_of :: "'a merged_row_scheme \<Rightarrow> fl" where
  "trend_score_of r =
     fl_mul (fl_div (fl_add (clip (- 50) 50 (revenue_trend_of r)) (Fin 50)) (Fin 100))
       (Fin (REVENUE_TREND_WEIGHT * 100))"

text \<open>Lines 86-90.\<close>

definition tvl_mcap_ratio_of :: "'a merged_row_scheme \<Rightarrow> fl" where
  "tvl_mcap_ratio_of r = np_where (fl_gt (mcap r) (Fin 0)) (fl_div (tvl r) (mcap r)) (Fin 0)"

text \<open>Lines 93-94.\<close>

definition efficiency_score_of :: "'a merged_row_scheme \<Rightarrow> fl" where
  "efficiency_score_of r =
     fl_mul (fl_div (clip 0 10 (tvl_mcap_ratio_of r)) (Fin 10)) (Fin (SIZE_EFFICIENCY_WEIGHT * 100))"

text \<open>Lines 97-104.\<close>

definition venture_score_of :: "'a metrics_row_scheme \<Rightarrow> fl" where
  "venture_score_of r =
     clip 0 100
       (round1 (fl_add (fl_add (valuation_score_of r) (trend_score_of r)) (efficiency_score_of r)))"

definition score_of :: "metrics_row \<Rightarrow> scored_row" where
  "score_of r =
     metrics_row.extend r
       (scored_row.fields (valuation_score_of r) (daily_avg_7d_of r) (revenue_trend_of r)
          (revenue_trend_status_of r) (trend_score_of r) (tvl_mcap_ratio_of r)
          (efficiency_score_of r) (venture_score_of r))"

definition calculate_venture_score :: "metrics_row list \<Rightarrow> scored_row list" where
  "calculate_venture_score df = map score_of df"

section \<open>utils/data.py: merge_datasets\<close>

text \<open>
  \<open>str.lower\<close> and \<open>str.strip\<close>, on ASCII text: the letters \<open>A\<close> to \<open>Z\<close> are lowered, and
  the characters that \<open>str.isspace\<close> accepts (codes 9 to 13, 28 to 32) are stripped from
  both ends.
\<close>

definition lower_char :: "char \<Rightarrow> char" where
  "lower_char c =
     (let n = (of_char c :: nat) in if 65 \<le> n \<and> n \<le> 90 then char_of (n + 32) else c)"

definition str_lower :: "string \<Rightarrow> string" where
  "str_lower s = map lower_char s"

definition isspace :: "char \<Rightarrow> bool" where
  "isspace c = (let n = (of_char c :: nat) in (9 \<le> n \<and> n \<le> 13) \<or> (28 \<le> n \<and> n \<le> 32))"

definition str_strip :: "string \<Rightarrow> string" where
  "str_strip s = rev (dropWhile isspace (rev (dropWhile isspace s)))"

text \<open>Lines 150-151: the column \<open>name_lower\<close> of a row, in either table.\<close>

definition name_lower :: "string \<Rightarrow> string" where
  "name_lower n = str_strip (str_lower n)"

text \<open>
  Lines 169, 174 and 198: the column \<open>symbol_lower\<close>; a missing symbol stays missing
  (\<open>.str\<close> methods map NaN to NaN) and equals no string at line 199.
\<close>

definition symbol_lower :: "string option \<Rightarrow> string option" where
  "symbol_lower s = map_option (\<lambda>v. str_strip (str_lower v)) s"

text \<open>
  \<open>DataFrame.drop_duplicates(subset=key, keep='first')\<close>: a row is kept when no earlier
  row has its key; the rows kept stay in their order.
\<close>

fun drop_duplicates_seen :: "'k list \<Rightarrow> ('a \<Rightarrow> 'k) \<Rightarrow> 'a list \<Rightarrow> 'a list" where
  "drop_duplicates_seen seen key [] = []"
| "drop_duplicates_seen seen key (x # xs) =
     (if key x \<in> set seen then drop_duplicates_seen seen key xs
      else x # drop_duplicates_seen (key x # seen) key xs)"

definition drop_duplicates :: "('a \<Rightarrow> 'k) \<Rightarrow> 'a list \<Rightarrow> 'a list" where
  "drop_duplicates key xs = drop_duplicates_seen [] key xs"

text \<open>A protocol row with its three revenue cells.\<close>

definition with_revenue :: "protocol \<Rightarrow> fl \<Rightarrow> fl \<Rightarrow> fl \<Rightarrow> merged_row" where
  "with_revenue p a b c = protocol.extend p (merged_row.fields a b c)"

text \<open>
  Lines 157-161: \<open>protocols.merge(right, on='name_lower', how='left')\<close>. Every left row,
  in the order of the left table, gives one output row per right row with its key (in
  the order of the right table), or one output row with NaN revenue cells when no right
  row has its key. The result has a fresh index \<open>0, 1, ...\<close>.
\<close>

definition merge_left :: "protocol list \<Rightarrow> fee list \<Rightarrow> merged_row list" where
  "merge_left protocols right =
     concat (map (\<lambda>p.
       let ms = filter (\<lambda>f. name_lower (fee.name f) = name_lower (name p)) right
       in if ms = [] then [with_revenue p NaN NaN NaN]
          else map (\<lambda>f. with_revenue p (fee.total24h f) (fee.total7d f) (fee.total30d f)) ms)
       protocols)"

text \<open>Lines 196-203: what the loop body does to the row at \<open>idx\<close>.\<close>

definition fill_from_symbol :: "fee list \<Rightarrow> merged_row \<Rightarrow> merged_row" where
  "fill_from_symbol fees_symbol_dedup r =
     (case symbol r of
        None \<Rightarrow> r
      | Some symbol_val \<Rightarrow>
          (let match = filter (\<lambda>f. symbol_lower (fee.symbol f) = Some (str_strip (str_lower symbol_val)))
                         fees_symbol_dedup
           in if match \<noteq> []
              then r\<lparr>total24h := fee.total24h (hd match),
                     total7d := fee.total7d (hd match),
                     total30d := fee.total30d (hd match)\<rparr>
              else r))"

definition symbol_step :: "fee list \<Rightarrow> nat \<Rightarrow> merged_row list \<Rightarrow> merged_row list" where
  "symbol_step fees_symbol_dedup idx merged =
     merged[idx := fill_from_symbol fees_symbol_dedup (merged ! idx)]"

text \<open>Line 178: the indices of the rows whose \<open>total24h\<close> is NaN after the merge.\<close>

definition unmatched_indices :: "merged_row list \<Rightarrow> nat list" where
  "unmatched_indices merged = filter (\<lambda>i. isna (total24h (merged ! i))) [0..<length merged]"

text \<open>Lines 206-207.\<close>

definition fillna_totals :: "merged_row \<Rightarrow> merged_row" where
  "fillna_totals r =
     r\<lparr>total24h := fillna (Fin 0) (total24h r),
       total7d := fillna (Fin 0) (total7d r),
       total30d := fillna (Fin 0) (total30d r)\<rparr>"

text \<open>
  The function. The helper columns \<open>name_lower\<close> and \<open>symbol_lower\<close> exist only as the
  keys computed above, so the final \<open>drop\<close> of lines 210-212 has nothing left to do here;
  the column \<open>symbol\<close> is a column of every protocol table, so the test of line 168 holds.
\<close>

definition merge_datasets :: "protocol list \<Rightarrow> fee list \<Rightarrow> merged_row list" where
  "merge_datasets protocols_df fees_df =
     (let fees_dedup = drop_duplicates (\<lambda>f. name_lower (fee.name f)) fees_df;
          merged = merge_left protocols_df fees_dedup;
          unmatched_mask = map (\<lambda>r. isna (total24h r)) merged;
          merged2 =
            (if list_ex (\<lambda>b. b) unmatched_mask
             then let fees_symbol_dedup = drop_duplicates (\<lambda>f. symbol_lower (fee.symbol f)) fees_df
                  in fold (symbol_step fees_symbol_dedup) (unmatched_indices merged) merged
             else merged)
      in map fillna_totals merged2)"

section \<open>The tables as objects\<close>

text \<open>
  The three functions receive references to tables, and pandas changes a table in place
  when a column is assigned. To say what a call does to the tables of its caller, the
  tables live in a store: an object is a frame (its typed columns and the names of the
  helper columns it holds beyond them, whose cells are the keys computed above), an
  address is a number, and a new object takes the next unused address. The cells of a
  frame are values: a copy shares the lists of the \<open>chains\<close> column with its original,
  but none of the three functions writes into a list.
\<close>

datatype table =
    Protocols "protocol list"
  | Fees "fee list"
  | Merged "merged_row list"
  | Metrics "metrics_row list"
  | Scored "scored_row list"

record frame =
  content :: table
  helper_columns :: "string list"

record store =
  objects :: "nat \<Rightarrow> frame option"
  next_id :: nat

text \<open>Every address from \<open>next_id\<close> on is unused.\<close>

definition wf_store :: "store \<Rightarrow> bool" where
  "wf_store s = (\<forall>a. next_id s \<le> a \<longrightarrow> objects s a = None)"

text \<open>A new object (the result of \<open>merge\<close>, \<open>drop_duplicates\<close>, \<open>drop\<close>, \<open>copy\<close>).\<close>

definition new_frame :: "frame \<Rightarrow> store \<Rightarrow> nat \<times> store" where
  "new_frame f s =
     (next_id s, s\<lparr>objects := (objects s)(next_id s \<mapsto> f), next_id := Suc (next_id s)\<rparr>)"

text \<open>\<open>df.copy()\<close>: a new object with the cells of the object at \<open>a\<close>.\<close>

definition copy_frame :: "nat \<Rightarrow> store \<Rightarrow> (nat \<times> store) option" where
  "copy_frame a s = (case objects s a of None \<Rightarrow> None | Some f \<Rightarrow> Some (new_frame f s))"

text \<open>An assignment into the object at \<open>a\<close> (\<open>df[col] = ...\<close>, \<open>df.loc[idx, col] = ...\<close>).\<close>

definition modify_frame :: "nat \<Rightarrow> (frame \<Rightarrow> frame) \<Rightarrow> store \<Rightarrow> store" where
  "modify_frame a g s =
     (case objects s a of None \<Rightarrow> s | Some f \<Rightarrow> s\<lparr>objects := (objects s)(a \<mapsto> g f)\<rparr>)"

definition assign_helper :: "string \<Rightarrow> frame \<Rightarrow> frame" where
  "assign_helper c f =
     (if c \<in> set (helper_columns f) then f else f\<lparr>helper_columns := helper_columns f @ [c]\<rparr>)"

definition drop_helpers :: "string list \<Rightarrow> frame \<Rightarrow> frame" where
  "drop_helpers cs f = f\<lparr>helper_columns := filter (\<lambda>c. c \<notin> set cs) (helper_columns f)\<rparr>"

fun the_protocols :: "table \<Rightarrow> protocol list option" where
  "the_protocols (Protocols P) = Some P"
| "the_protocols _ = None"

fun the_fees :: "table \<Rightarrow> fee list option" where
  "the_fees (Fees R) = Some R"
| "the_fees _ = None"

fun the_merged :: "table \<Rightarrow> merged_row list option" where
  "the_merged (Merged M) = Some M"
| "the_merged _ = None"

fun the_metrics :: "table \<Rightarrow> metrics_row list option" where
  "the_metrics (Metrics M) = Some M"
| "the_metrics _ = None"

text \<open>
  Reading the typed columns of the object at an address; \<open>None\<close> when the object lacks
  the columns the caller asks for (a \<open>KeyError\<close> in the source).
\<close>

definition read_protocols :: "nat \<Rightarrow> store \<Rightarrow> protocol list option" where
  "read_protocols a s = Option.bind (objects s a) (\<lambda>f. the_protocols (content f))"

definition read_fees :: "nat \<Rightarrow> store \<Rightarrow> fee list option" where
  "read_fees a s = Option.bind (objects s a) (\<lambda>f. the_fees (content f))"

definition read_merged :: "nat \<Rightarrow> store \<Rightarrow> merged_row list option" where
  "read_merged a s = Option.bind (objects s a) (\<lambda>f. the_merged (content f))"

definition read_metrics :: "nat \<Rightarrow> store \<Rightarrow> metrics_row list option" where
  "read_metrics a s = Option.bind (objects s a) (\<lambda>f. the_metrics (content f))"

text \<open>A change of the typed columns of a frame, in place.\<close>

definition on_merged :: "(merged_row list \<Rightarrow> table) \<Rightarrow> frame \<Rightarrow> frame" where
  "on_merged g f = (case content f of Merged M \<Rightarrow> f\<lparr>content := g M\<rparr> | _ \<Rightarrow> f)"

definition on_metrics :: "(metrics_row list \<Rightarrow> table) \<Rightarrow> frame \<Rightarrow> frame" where
  "on_metrics g f = (case content f of Metrics M \<Rightarrow> f\<lparr>content := g M\<rparr> | _ \<Rightarrow> f)"

text \<open>
  \<open>merge_datasets\<close> on the store, statement by statement: the two copies of lines 146-147,
  the helper columns assigned into the copies (lines 150-151, 169, 174), the new objects
  \<open>fees_dedup\<close> (154), \<open>merged\<close> (157), \<open>fees_symbol_dedup\<close> (175), the assignments into
  \<open>merged\<close> (the loop of lines 180-203, the \<open>fillna\<close> of 206-207) and the new object that
  \<open>drop\<close> returns (212), which is the result.
\<close>

definition merge_datasets_store :: "nat \<Rightarrow> nat \<Rightarrow> store \<Rightarrow> (nat \<times> store) option" where
  "merge_datasets_store protocols_df fees_df s0 = do {
     (protocols, s1) \<leftarrow> copy_frame protocols_df s0;
     (fees, s2) \<leftarrow> copy_frame fees_df s1;
     let s3 = modify_frame protocols (assign_helper ''name_lower'') s2;
     let s4 = modify_frame fees (assign_helper ''name_lower'') s3;
     R \<leftarrow> read_fees fees s4;
     fr \<leftarrow> objects s4 fees;
     let (fees_dedup, s5) =
       new_frame (fr\<lparr>content := Fees (drop_duplicates (\<lambda>f. name_lower (fee.name f)) R)\<rparr>) s4;
     P \<leftarrow> read_protocols protocols s5;
     D \<leftarrow> read_fees fees_dedup s5;
     fp \<leftarrow> objects s5 protocols;
     let (merged, s6) = new_frame (fp\<lparr>content := Merged (merge_left P D)\<rparr>) s5;
     M \<leftarrow> read_merged merged s6;
     let unmatched_mask = map (\<lambda>r. isna (total24h r)) M;
     s10 \<leftarrow>
       (if list_ex (\<lambda>b. b) unmatched_mask
        then do {
          let s7 = modify_frame protocols (assign_helper ''symbol_lower'') s6;
          let s8 = modify_frame fees (assign_helper ''symbol_lower'') s7;
          R2 \<leftarrow> read_fees fees s8;
          fr2 \<leftarrow> objects s8 fees;
          let (fees_symbol_dedup, s9) =
            new_frame
              (fr2\<lparr>content := Fees (drop_duplicates (\<lambda>f. symbol_lower (fee.symbol f)) R2)\<rparr>) s8;
          S \<leftarrow> read_fees fees_symbol_dedup s9;
          Some (modify_frame merged
                  (on_merged (\<lambda>M. Merged (fold (symbol_step S) (unmatched_indices M) M))) s9)
        }
        else Some s6);
     let s11 = modify_frame merged (on_merged (\<lambda>M. Merged (map fillna_totals M))) s10;
     f \<leftarrow> objects s11 merged;
     Some (new_frame (drop_helpers [''name_lower'', ''symbol_lower''] f) s11)
   }"

text \<open>
  \<open>calculate_financial_metrics\<close> on the store: the copy of line 9, then the column
  assignments of lines 13-45, all into the copy, which is returned.
\<close>

definition calculate_financial_metrics_store :: "nat \<Rightarrow> store \<Rightarrow> (nat \<times> store) option" where
  "calculate_financial_metrics_store df_in s0 = do {
     (df, s1) \<leftarrow> copy_frame df_in s0;
     _ \<leftarrow> read_merged df s1;
     Some (df, modify_frame df (on_merged (\<lambda>M. Metrics (calculate_financial_metrics M))) s1)
   }"

text \<open>
  \<open>calculate_venture_score\<close> on the store: the copy of line 54, then the column
  assignments of lines 60-104, all into the copy, which is returned.
\<close>

definition calculate_venture_score_store :: "nat \<Rightarrow> store \<Rightarrow> (nat \<times> store) option" where
  "calculate_venture_score_store df_in s0 = do {
     (df, s1) \<leftarrow> copy_frame df_in s0;
     _ \<leftarrow> read_metrics df s1;
     Some (df, modify_frame df (on_metrics (\<lambda>M. Scored (calculate_venture_score M))) s1)
   }"

section \<open>Vocabulary of the properties\<close>

text \<open>The cells of the data model: finite numbers, and non-negative finite numbers.\<close>

definition nonneg_finite :: "fl \<Rightarrow> bool" where
  "nonneg_finite x = (case x of Fin a \<Rightarrow> 0 \<le> a | _ \<Rightarrow> False)"

definition finite_row :: "'a merged_row_scheme \<Rightarrow> bool" where
  "finite_row r =
     (is_finite (tvl r) \<and> is_finite (mcap r) \<and> is_finite (total24h r) \<and>
      is_finite (total7d r) \<and> is_finite (total30d r))"

text \<open>A revenue row as the data provider delivers it: no cell is NaN (it fills NaN with 0).\<close>

definition fee_no_nan :: "fee \<Rightarrow> bool" where
  "fee_no_nan f = (notna (fee.total24h f) \<and> notna (fee.total7d f) \<and> notna (fee.total30d f))"

definition has_revenue :: "merged_row \<Rightarrow> fl \<Rightarrow> fl \<Rightarrow> fl \<Rightarrow> bool" where
  "has_revenue r a b c = (total24h r = a \<and> total7d r = b \<and> total30d r = c)"

text \<open>What the name pass and the symbol pass do to one row (used to summarise the loop).\<close>

definition name_pass :: "fee list \<Rightarrow> protocol \<Rightarrow> merged_row" where
  "name_pass fees_df p =
     (case find (\<lambda>f. name_lower (fee.name f) = name_lower (name p)) fees_df of
        None \<Rightarrow> with_revenue p NaN NaN NaN
      | Some f \<Rightarrow> with_revenue p (fee.total24h f) (fee.total7d f) (fee.total30d f))"

definition symbol_pass :: "fee list \<Rightarrow> merged_row \<Rightarrow> merged_row" where
  "symbol_pass fees_df r =
     (if isna (total24h r)
      then fill_from_symbol (drop_duplicates (\<lambda>f. symbol_lower (fee.symbol f)) fees_df) r
      else r)"

text \<open>An object at \<open>a\<close> with the typed columns \<open>t\<close>; no object that existed in \<open>s\<close> differs in \<open>s'\<close>.\<close>

definition holds :: "store \<Rightarrow> nat \<Rightarrow> table \<Rightarrow> bool" where
  "holds s a t = (\<exists>f. objects s a = Some f \<and> content f = t)"

definition unchanged_below :: "store \<Rightarrow> store \<Rightarrow> bool" where
  "unchanged_below s s' = (\<forall>a. a < next_id s \<longrightarrow> objects s' a = objects s a)"

definition frame_result :: "store \<Rightarrow> table \<Rightarrow> (nat \<times> store) option \<Rightarrow> bool" where
  "frame_result s t res =
     (case res of
        None \<Rightarrow> False
      | Some bs \<Rightarrow> next_id s \<le> fst bs \<and> unchanged_below s (snd bs) \<and> holds (snd bs) (fst bs) t)"

section \<open>A sample batch\<close>

text \<open>
  Four protocols and five revenue rows: \<open>Foo\<close> matches by name (two revenue rows share
  its normalized name), \<open>BAR\<close> matches by name and has daily revenue only, \<open>Baz\<close> matches
  by symbol only (two revenue rows share its normalized symbol) and has no market cap,
  \<open>Qux\<close> matches nothing.
\<close>

definition sample_protocols :: "protocol list" where
  "sample_protocols =
     [\<lparr>name = ''Foo'', symbol = Some ''FOO'', tvl = Fin 500000, mcap = Fin 1000000,
       category = Some ''Lending'', chains = Some [''Ethereum''], primary_chain = ''Ethereum''\<rparr>,
      \<lparr>name = '' BAR '', symbol = Some ''bar'', tvl = Fin 3000000, mcap = Fin 2000000,
       category = Some ''Dexs'', chains = Some [''Solana'', ''Ethereum''],
       primary_chain = ''Solana''\<rparr>,
      \<lparr>name = ''Baz'', symbol = Some '' BZ '', tvl = Fin 100, mcap = Fin 0,
       category = None, chains = None, primary_chain = ''Unknown''\<rparr>,
      \<lparr>name = ''Qux'', symbol = None, tvl = Fin 8000000, mcap = Fin 4000000,
       category = Some ''Yield'', chains = Some [], primary_chain = ''Unknown''\<rparr>]"

definition sample_fees :: "fee list" where
  "sample_fees =
     [\<lparr>fee.name = ''foo'', symbol = Some ''F1'',
       total24h = Fin 4000, total7d = Fin 28000, total30d = Fin 100000\<rparr>,
      \<lparr>fee.name = ''FOO '', symbol = Some ''F2'',
       total24h = Fin 1, total7d = Fin 1, total30d = Fin 1\<rparr>,
      \<lparr>fee.name = ''bar'', symbol = Some ''BAR'',
       total24h = Fin 1000, total7d = Fin 3500, total30d = Fin 0\<rparr>,
      \<lparr>fee.name = ''Bazooka'', symbol = Some ''bz'',
       total24h = Fin 50, total7d = Fin 700, total30d = Fin 3000\<rparr>,
      \<lparr>fee.name = ''Bazooka 2'', symbol = Some ''BZ'',
       total24h = Fin 9, total7d = Fin 9, total30d = Fin 9\<rparr>]"

text \<open>The four rows that the merge of the sample tables gives.\<close>

definition row_foo :: merged_row where
  "row_foo = with_revenue (sample_protocols ! 0) (Fin 4000) (Fin 28000) (Fin 100000)"

definition row_bar :: merged_row where
  "row_bar = with_revenue (sample_protocols ! 1) (Fin 1000) (Fin 3500) (Fin 0)"

definition row_baz :: merged_row where
  "row_baz = with_revenue (sample_protocols ! 2) (Fin 50) (Fin 700) (Fin 3000)"

definition row_qux :: merged_row where
  "row_qux = with_revenue (sample_protocols ! 3) (Fin 0) (Fin 0) (Fin 0)"

definition sample_merged :: "merged_row list" where
  "sample_merged = [row_foo, row_bar, row_baz, row_qux]"

definition sample_metrics :: "metrics_row list" where
  "sample_metrics = calculate_financial_metrics sample_merged"

definition empty_store :: store where
  "empty_store = \<lparr>objects = (\<lambda>a. None), next_id = 0\<rparr>"

text \<open>A store with four tables, at the addresses 0 to 3.\<close>

definition sample_store :: store where
  "sample_store =
     snd (new_frame \<lparr>content = Metrics sample_metrics, helper_columns = []\<rparr>
       (snd (new_frame \<lparr>content = Merged sample_merged, helper_columns = []\<rparr>
         (snd (new_frame \<lparr>content = Fees sample_fees, helper_columns = []\<rparr>
           (snd (new_frame \<lparr>content = Protocols sample_protocols, helper_columns = []\<rparr>
              empty_store)))))))"

section \<open>Facts about the numbers\<close>

lemma is_finite_iff: "is_finite x \<longleftrightarrow> (\<exists>a. x = Fin a)"
  by (cases x) simp_all

lemma fl_gt_div7: "fl_gt (fl_div x (Fin 7)) (Fin 0) = fl_gt x (Fin 0)"
  by (cases x) (simp_all add: signed_inf_def)

lemma clip_cases:
  "clip lo hi NaN = NaN"
  "clip lo hi PInf = Fin hi"
  "lo \<le> hi \<Longrightarrow> clip lo hi NInf = Fin lo"
  "lo \<le> hi \<Longrightarrow> clip lo hi (Fin t) = Fin (max lo (min hi t))"
  by (auto simp add: clip_def fl_lt_def Let_def max_def min_def)

lemma clip_range:
  assumes "lo \<le> hi" and "x \<noteq> NaN"
  shows "\<exists>c. clip lo hi x = Fin c \<and> lo \<le> c \<and> c \<le> hi"
  using assms by (cases x) (simp_all add: clip_cases)

lemma rint_floor_cases: "rint x = \<lfloor>x\<rfloor> \<or> rint x = \<lfloor>x\<rfloor> + 1"
  by (simp add: rint_def Let_def)

lemma rint_of_int [simp]: "rint (of_int n) = n"
  by (simp add: rint_def Let_def)

lemma rint_lower:
  assumes "of_int n \<le> x"
  shows "n \<le> rint x"
proof -
  from assms have "n \<le> \<lfloor>x\<rfloor>" by (simp add: le_floor_iff)
  with rint_floor_cases [of x] show ?thesis by auto
qed

lemma rint_upper:
  assumes "x \<le> of_int n"
  shows "rint x \<le> n"
proof (cases "x = of_int n")
  case True
  then show ?thesis by simp
next
  case False
  with assms have "x < of_int n" by simp
  then have "\<lfloor>x\<rfloor> < n" by (simp add: floor_less_iff)
  with rint_floor_cases [of x] show ?thesis by auto
qed

section \<open>Facts about the rows of the two calculators\<close>

lemma metrics_of_sel [simp]:
  "annualized_revenue (metrics_of m r) = annualized_revenue_of r"
  "ps_ratio (metrics_of m r) = ps_ratio_of r"
  "ps_ratio_calc (metrics_of m r) = ps_ratio_calc_of r"
  "sector_median_ps (metrics_of m r) = m"
  "fair_value (metrics_of m r) = fair_value_of m r"
  "upside_potential (metrics_of m r) = upside_potential_of m r"
  "total24h (metrics_of m r) = total24h r"
  "total7d (metrics_of m r) = total7d r"
  "total30d (metrics_of m r) = total30d r"
  "mcap (metrics_of m r) = mcap r"
  "tvl (metrics_of m r) = tvl r"
  by (simp_all add: metrics_of_def merged_row.extend_def metrics_row.fields_def)

lemma metrics_of_derived [simp]:
  "annualized_revenue_of (metrics_of m r) = annualized_revenue_of r"
  "ps_ratio_of (metrics_of m r) = ps_ratio_of r"
  "fair_value_of k (metrics_of m r) = fair_value_of k r"
  by (simp_all add: annualized_revenue_of_def ps_ratio_of_def fair_value_of_def)

lemma metrics_of_scores [simp]:
  "daily_avg_7d_of (metrics_of m r) = daily_avg_7d_of r"
  "revenue_trend_of (metrics_of m r) = revenue_trend_of r"
  "revenue_trend_status_of (metrics_of m r) = revenue_trend_status_of r"
  "trend_score_of (metrics_of m r) = trend_score_of r"
  "tvl_mcap_ratio_of (metrics_of m r) = tvl_mcap_ratio_of r"
  "efficiency_score_of (metrics_of m r) = efficiency_score_of r"
  by (simp_all add: daily_avg_7d_of_def revenue_trend_of_def revenue_trend_status_of_def
      trend_score_of_def tvl_mcap_ratio_of_def efficiency_score_of_def)

lemma score_of_sel [simp]:
  "valuation_score (score_of r) = valuation_score_of r"
  "daily_avg_7d (score_of r) = daily_avg_7d_of r"
  "revenue_trend (score_of r) = revenue_trend_of r"
  "revenue_trend_status (score_of r) = revenue_trend_status_of r"
  "trend_score (score_of r) = trend_score_of r"
  "tvl_mcap_ratio (score_of r) = tvl_mcap_ratio_of r"
  "efficiency_score (score_of r) = efficiency_score_of r"
  "venture_score (score_of r) = venture_score_of r"
  "total24h (score_of r) = total24h r"
  "total7d (score_of r) = total7d r"
  "total30d (score_of r) = total30d r"
  "mcap (score_of r) = mcap r"
  "tvl (score_of r) = tvl r"
  "annualized_revenue (score_of r) = annualized_revenue r"
  "fair_value (score_of r) = fair_value r"
  "upside_potential (score_of r) = upside_potential r"
  "ps_ratio (score_of r) = ps_ratio r"
  "sector_median_ps (score_of r) = sector_median_ps r"
  by (simp_all add: score_of_def metrics_row.extend_def scored_row.fields_def)

lemma cfm_row:
  assumes "r \<in> set (calculate_financial_metrics df)"
  obtains r0 where "r0 \<in> set df" "r = metrics_of (sector_median_ps_of df) r0"
  using assms by (auto simp: calculate_financial_metrics_def)

lemma cvs_row:
  assumes "s \<in> set (calculate_venture_score df)"
  obtains r where "r \<in> set df" "s = score_of r"
  using assms by (auto simp: calculate_venture_score_def)

lemma pipeline_row:
  assumes "s \<in> set (calculate_venture_score (calculate_financial_metrics df))"
  obtains r0 where "r0 \<in> set df" "s = score_of (metrics_of (sector_median_ps_of df) r0)"
  using assms by (auto simp: calculate_venture_score_def calculate_financial_metrics_def)

section \<open>The sample batch, evaluated\<close>

lemma sample_rows [simp]:
  "mcap row_foo = Fin 1000000" "tvl row_foo = Fin 500000"
  "total24h row_foo = Fin 4000" "total7d row_foo = Fin 28000" "total30d row_foo = Fin 100000"
  "mcap row_bar = Fin 2000000" "tvl row_bar = Fin 3000000"
  "total24h row_bar = Fin 1000" "total7d row_bar = Fin 3500" "total30d row_bar = Fin 0"
  "mcap row_baz = Fin 0" "tvl row_baz = Fin 100"
  "total24h row_baz = Fin 50" "total7d row_baz = Fin 700" "total30d row_baz = Fin 3000"
  "mcap row_qux = Fin 4000000" "tvl row_qux = Fin 8000000"
  "total24h row_qux = Fin 0" "total7d row_qux = Fin 0" "total30d row_qux = Fin 0"
  by (simp_all add: row_foo_def row_bar_def row_baz_def row_qux_def sample_protocols_def
      with_revenue_def protocol.extend_def merged_row.fields_def)

lemma sample_annualized [simp]:
  "annualized_revenue_of row_foo = Fin 1200000"
  "annualized_revenue_of row_bar = Fin 365000"
  "annualized_revenue_of row_baz = Fin 36000"
  "annualized_revenue_of row_qux = Fin 0"
  by (simp_all add: annualized_revenue_of_def np_where_def)

lemma sample_ps_ratio [simp]:
  "ps_ratio_of row_foo = Fin (5 / 6)"
  "ps_ratio_of row_bar = Fin (400 / 73)"
  "ps_ratio_of row_baz = Fin 0"
  "ps_ratio_of row_qux = PInf"
  by (simp_all add: ps_ratio_of_def np_where_def)

lemma sample_member:
  "metrics_of (sector_median_ps_of sample_merged) row_foo
     \<in> set (calculate_financial_metrics sample_merged)"
  "metrics_of (sector_median_ps_of sample_merged) row_bar
     \<in> set (calculate_financial_metrics sample_merged)"
  "metrics_of (sector_median_ps_of sample_merged) row_baz
     \<in> set (calculate_financial_metrics sample_merged)"
  "metrics_of (sector_median_ps_of sample_merged) row_qux
     \<in> set (calculate_financial_metrics sample_merged)"
  by (simp_all add: calculate_financial_metrics_def sample_merged_def)

lemma sample_median: "sector_median_ps_of sample_merged = Fin (2765 / 876)"
  by (simp add: sector_median_ps_of_def ps_ratio_calc_of_def [abs_def] sample_merged_def
      replace_inf_def valid_ps_cell_def notna_def fl_lt_def series_median_def median_def)

section \<open>calculate_financial_metrics: the properties\<close>





lemma valid_ps_cell_iff: "valid_ps_cell c \<longleftrightarrow> (\<exists>x. c = Fin x \<and> 0 < x \<and> x < 1000)"
  by (cases c) (simp_all add: valid_ps_cell_def notna_def fl_lt_def)

lemma finite_cells_filter_valid:
  "finite_cells (filter valid_ps_cell cs) = [] \<longleftrightarrow> filter valid_ps_cell cs = []"
proof (induction cs)
  case Nil
  show ?case by simp
next
  case (Cons c cs)
  show ?case
  proof (cases "valid_ps_cell c")
    case True
    then obtain x where "c = Fin x" by (auto simp: valid_ps_cell_iff)
    with True show ?thesis by simp
  next
    case False
    with Cons show ?thesis by simp
  qed
qed

lemma sector_median_ps_of_eq:
  "sector_median_ps_of df =
     (let vs = finite_cells (filter valid_ps_cell (map ps_ratio_calc_of df))
      in if vs = [] then Fin 10 else Fin (median vs))"
  by (simp add: sector_median_ps_of_def Let_def series_median_def finite_cells_filter_valid)

lemma sector_median_ps_finite: "\<exists>m. sector_median_ps_of df = Fin m"
  by (simp add: sector_median_ps_of_eq Let_def)

lemma finite_cells_replace_inf:
  "finite_cells (filter valid_ps_cell (map replace_inf cs)) =
   finite_cells (filter (\<lambda>c. is_finite c \<and> fl_gt c (Fin 0) \<and> fl_lt c (Fin 1000)) cs)"
proof (induction cs)
  case Nil
  show ?case by simp
next
  case (Cons c cs)
  then show ?case
    by (cases c) (auto simp add: valid_ps_cell_iff replace_inf_def fl_lt_def)
qed

lemma map_ps_ratio_cfm:
  "map ps_ratio (calculate_financial_metrics df) = map ps_ratio_of df"
  by (simp add: calculate_financial_metrics_def)

text \<open>
  \<^bold>\<open>C3\<close>. Every row of one batch gets the same \<open>sector_median_ps\<close>: the median of the
  \<open>ps_ratio\<close> cells of the batch that are finite, above 0 and below 1000, or 10 when no
  cell passes that filter.
\<close>

theorem C3_sector_median:
  assumes "r \<in> set (calculate_financial_metrics df)"
  shows "sector_median_ps r =
           (let vs = finite_cells
                       (filter (\<lambda>c. is_finite c \<and> fl_gt c (Fin 0) \<and> fl_lt c (Fin 1000))
                          (map ps_ratio (calculate_financial_metrics df)))
            in if vs = [] then Fin 10 else Fin (median vs))"
proof -
  from assms obtain r0 where r: "r = metrics_of (sector_median_ps_of df) r0"
    by (rule cfm_row)
  have "map ps_ratio_calc_of df = map replace_inf (map ps_ratio_of df)"
    by (simp add: ps_ratio_calc_of_def)
  then have "finite_cells (filter valid_ps_cell (map ps_ratio_calc_of df)) =
      finite_cells (filter (\<lambda>c. is_finite c \<and> fl_gt c (Fin 0) \<and> fl_lt c (Fin 1000))
                      (map ps_ratio_of df))"
    by (simp only: finite_cells_replace_inf)
  then show ?thesis
    by (simp add: r sector_median_ps_of_eq map_ps_ratio_cfm)
qed

theorem C3_sector_median_witness:
  "sector_median_ps (metrics_of (sector_median_ps_of sample_merged) row_foo) = Fin (2765 / 876)
   \<and> sector_median_ps (metrics_of (sector_median_ps_of sample_merged) row_qux) = Fin (2765 / 876)
   \<and> sector_median_ps (metrics_of (sector_median_ps_of [row_baz, row_qux]) row_qux) = Fin 10"
proof -
  have v1: "finite_cells
      (filter (\<lambda>c. is_finite c \<and> fl_gt c (Fin 0) \<and> fl_lt c (Fin 1000))
         (map ps_ratio (calculate_financial_metrics sample_merged))) = [5 / 6, 400 / 73]"
    by (simp add: map_ps_ratio_cfm sample_merged_def fl_lt_def)
  have m1: "median [5 / 6, 400 / 73] = (2765 / 876 :: real)"
    by (simp add: median_def)
  have v2: "finite_cells
      (filter (\<lambda>c. is_finite c \<and> fl_gt c (Fin 0) \<and> fl_lt c (Fin 1000))
         (map ps_ratio (calculate_financial_metrics [row_baz, row_qux]))) = []"
    by (simp add: map_ps_ratio_cfm fl_lt_def)
  have mem: "metrics_of (sector_median_ps_of [row_baz, row_qux]) row_qux
      \<in> set (calculate_financial_metrics [row_baz, row_qux])"
    by (simp add: calculate_financial_metrics_def)
  from C3_sector_median [OF sample_member(1)] C3_sector_median [OF sample_member(4)]
    C3_sector_median [OF mem]
  show ?thesis
    by (simp only: v1 v2 m1 Let_def list.simps if_True if_False simp_thms)
qed



section \<open>calculate_venture_score: the properties\<close>



lemma nonneg_finite_is_finite: "nonneg_finite x \<Longrightarrow> is_finite x"
  by (cases x) (simp_all add: nonneg_finite_def)

lemma upside_potential_finite:
  assumes "is_finite (mcap r)" "is_finite (total24h r)" "is_finite (total30d r)"
  shows "\<exists>u. upside_potential_of (Fin m) r = Fin u"
proof -
  from assms obtain c a b where
    fin: "mcap r = Fin c" "total24h r = Fin a" "total30d r = Fin b"
    by (auto simp: is_finite_iff)
  show ?thesis
    by (simp add: upside_potential_of_def fair_value_of_def annualized_revenue_of_def
        np_where_def fl_sub_def fin)
qed

lemma valuation_score_bounds:
  assumes "upside_potential r \<noteq> NaN"
  shows "\<exists>v. valuation_score_of r = Fin v \<and> 0 \<le> v \<and> v \<le> 40"
proof -
  from assms obtain c where c: "clip (- 100) 200 (upside_potential r) = Fin c" "- 100 \<le> c" "c \<le> 200"
    using clip_range [of "- 100" 200 "upside_potential r"] by auto
  have "valuation_score_of r = Fin ((c + 100) / 300 * 40)"
    by (simp add: valuation_score_of_def c(1) VALUATION_GAP_WEIGHT_def)
  moreover have "0 \<le> (c + 100) / 300 * 40"
    using c(2) by simp
  moreover have "(c + 100) / 300 * 40 \<le> 40"
    using c(3) by simp
  ultimately show ?thesis by blast
qed

lemma revenue_trend_finite:
  assumes "is_finite (total24h r)" "is_finite (total7d r)"
  shows "\<exists>t. revenue_trend_of r = Fin t"
proof -
  from assms obtain a b where fin: "total24h r = Fin a" "total7d r = Fin b"
    by (auto simp: is_finite_iff)
  show ?thesis
    by (simp add: revenue_trend_of_def daily_avg_7d_of_def np_where_def fl_sub_def fin)
qed

lemma trend_score_bounds:
  assumes "revenue_trend_of r \<noteq> NaN"
  shows "\<exists>v. trend_score_of r = Fin v \<and> 0 \<le> v \<and> v \<le> 30"
proof -
  from assms obtain c where c: "clip (- 50) 50 (revenue_trend_of r) = Fin c" "- 50 \<le> c" "c \<le> 50"
    using clip_range [of "- 50" 50 "revenue_trend_of r"] by auto
  have "trend_score_of r = Fin ((c + 50) / 100 * 30)"
    by (simp add: trend_score_of_def c(1) REVENUE_TREND_WEIGHT_def)
  moreover have "0 \<le> (c + 50) / 100 * 30"
    using c(2) by simp
  moreover have "(c + 50) / 100 * 30 \<le> 30"
    using c(3) by simp
  ultimately show ?thesis by blast
qed

lemma tvl_mcap_ratio_finite:
  assumes "is_finite (tvl r)" "is_finite (mcap r)"
  shows "\<exists>q. tvl_mcap_ratio_of r = Fin q"
proof -
  from assms obtain a b where fin: "tvl r = Fin a" "mcap r = Fin b"
    by (auto simp: is_finite_iff)
  show ?thesis
    by (simp add: tvl_mcap_ratio_of_def np_where_def fin)
qed

lemma efficiency_score_bounds:
  assumes "tvl_mcap_ratio_of r \<noteq> NaN"
  shows "\<exists>v. efficiency_score_of r = Fin v \<and> 0 \<le> v \<and> v \<le> 30"
proof -
  from assms obtain c where c: "clip (0) 10 (tvl_mcap_ratio_of r) = Fin c" "0 \<le> c" "c \<le> 10"
    using clip_range [of "0" 10 "tvl_mcap_ratio_of r"] by auto
  have "efficiency_score_of r = Fin (c / 10 * 30)"
    by (simp add: efficiency_score_of_def c(1) SIZE_EFFICIENCY_WEIGHT_def)
  moreover have "0 \<le> c / 10 * 30"
    using c(2) by simp
  moreover have "c / 10 * 30 \<le> 30"
    using c(3) by simp
  ultimately show ?thesis by blast
qed

lemma venture_score_of_sum:
  assumes "valuation_score_of r = Fin v" "trend_score_of r = Fin t" "efficiency_score_of r = Fin e"
    and "0 \<le> v + t + e" and "v + t + e \<le> of_int n" and "n \<le> 100"
  shows "venture_score_of r = Fin (of_int (rint ((v + t + e) * 10)) / 10)
         \<and> 0 \<le> rint ((v + t + e) * 10) \<and> rint ((v + t + e) * 10) \<le> n * 10"
proof -
  let ?k = "rint ((v + t + e) * 10)"
  have lo: "0 \<le> ?k"
    using assms(4) by (intro rint_lower) simp
  have hi: "?k \<le> n * 10"
    using assms(5) by (intro rint_upper) simp
  have "(0::real) \<le> of_int ?k / 10"
    using lo by simp
  moreover have "of_int ?k / 10 \<le> (100::real)"
  proof -
    have "?k \<le> 1000" using hi assms(6) by linarith
    then have "(of_int ?k :: real) \<le> 1000" by linarith
    then show ?thesis by simp
  qed
  ultimately have "clip 0 100 (Fin (of_int ?k / 10)) = Fin (of_int ?k / 10)"
    by (simp add: clip_cases max_def min_def)
  then show ?thesis
    using lo hi by (simp add: venture_score_of_def assms(1-3))
qed

lemma scores_of_finite_row:
  assumes "finite_row r0"
  shows "\<exists>v t e. valuation_score_of (metrics_of (sector_median_ps_of df) r0) = Fin v
           \<and> 0 \<le> v \<and> v \<le> 40
           \<and> trend_score_of r0 = Fin t \<and> 0 \<le> t \<and> t \<le> 30
           \<and> efficiency_score_of r0 = Fin e \<and> 0 \<le> e \<and> e \<le> 30"
proof -
  obtain m where m: "sector_median_ps_of df = Fin m"
    using sector_median_ps_finite [of df] by blast
  have "\<exists>u. upside_potential_of (Fin m) r0 = Fin u"
    using assms by (intro upside_potential_finite) (simp_all add: finite_row_def)
  then have "upside_potential (metrics_of (sector_median_ps_of df) r0) \<noteq> NaN"
    by (auto simp: m)
  from valuation_score_bounds [OF this] obtain v where
    v: "valuation_score_of (metrics_of (sector_median_ps_of df) r0) = Fin v" "0 \<le> v" "v \<le> 40"
    by blast
  have "revenue_trend_of r0 \<noteq> NaN"
    using revenue_trend_finite [of r0] assms by (auto simp: finite_row_def)
  from trend_score_bounds [OF this] obtain t where
    t: "trend_score_of r0 = Fin t" "0 \<le> t" "t \<le> 30"
    by blast
  have "tvl_mcap_ratio_of r0 \<noteq> NaN"
    using tvl_mcap_ratio_finite [of r0] assms by (auto simp: finite_row_def)
  from efficiency_score_bounds [OF this] obtain e where
    e: "efficiency_score_of r0 = Fin e" "0 \<le> e" "e \<le> 30"
    by blast
  from v t e show ?thesis by blast
qed



text \<open>
  \<^bold>\<open>C10\<close>. On a row of the data model (finite cells) with \<open>mcap > 0\<close> and
  \<open>annualized_revenue = 0\<close>, \<open>fair_value\<close> is 0, \<open>upside_potential\<close> is exactly -100,
  \<open>valuation_score\<close> is exactly 0, and \<open>venture_score\<close> is at most 60.
\<close>

theorem C10_no_revenue:
  assumes "s \<in> set (calculate_venture_score (calculate_financial_metrics df))"
    and "finite_row s" and "fl_gt (mcap s) (Fin 0)" and "annualized_revenue s = Fin 0"
  shows "fair_value s = Fin 0 \<and> upside_potential s = Fin (- 100) \<and> valuation_score s = Fin 0
         \<and> (\<exists>c. venture_score s = Fin c \<and> c \<le> 60)"
proof -
  from assms(1) obtain r0 where r0: "r0 \<in> set df"
    and s: "s = score_of (metrics_of (sector_median_ps_of df) r0)"
    by (rule pipeline_row)
  let ?r = "metrics_of (sector_median_ps_of df) r0"
  obtain m where m: "sector_median_ps_of df = Fin m"
    using sector_median_ps_finite [of df] by blast
  from assms(2) have fr: "finite_row r0"
    by (simp add: s finite_row_def)
  from assms(3) fr obtain c where c: "mcap r0 = Fin c" "0 < c"
    by (auto simp: s finite_row_def is_finite_iff)
  from assms(4) have ar: "annualized_revenue_of r0 = Fin 0"
    by (simp add: s)
  have fv: "fair_value_of (Fin m) r0 = Fin 0"
    by (simp add: fair_value_of_def ar)
  have up: "upside_potential_of (Fin m) r0 = Fin (- 100)"
    using c by (simp add: upside_potential_of_def fv np_where_def fl_sub_def)
  have vs: "valuation_score_of ?r = Fin 0"
    by (simp add: valuation_score_of_def m up clip_cases)
  from scores_of_finite_row [OF fr, of df] obtain t e where
    t: "trend_score_of r0 = Fin t" "0 \<le> t" "t \<le> 30" and
    e: "efficiency_score_of r0 = Fin e" "0 \<le> e" "e \<le> 30"
    by blast
  have "venture_score_of ?r = Fin (of_int (rint ((0 + t + e) * 10)) / 10)
         \<and> 0 \<le> rint ((0 + t + e) * 10) \<and> rint ((0 + t + e) * 10) \<le> 60 * 10"
    using vs t e by (intro venture_score_of_sum) simp_all
  then have v: "venture_score_of ?r = Fin (of_int (rint ((0 + t + e) * 10)) / 10)"
    and hi: "rint ((0 + t + e) * 10) \<le> 600"
    by simp_all
  have "of_int (rint ((0 + t + e) * 10)) / 10 \<le> (60::real)"
  proof -
    from hi have "(of_int (rint ((0 + t + e) * 10)) :: real) \<le> 600" by linarith
    then show ?thesis by simp
  qed
  with v have "\<exists>c. venture_score_of ?r = Fin c \<and> c \<le> 60" by blast
  moreover have "fair_value ?r = Fin 0" "upside_potential ?r = Fin (- 100)"
    by (simp_all add: m fv up)
  ultimately have "fair_value ?r = Fin 0 \<and> upside_potential ?r = Fin (- 100)
      \<and> valuation_score_of ?r = Fin 0 \<and> (\<exists>c. venture_score_of ?r = Fin c \<and> c \<le> 60)"
    using vs by blast
  then show ?thesis
    by (simp only: s score_of_sel)
qed

theorem C10_no_revenue_witness:
  "fair_value (score_of (metrics_of (sector_median_ps_of sample_merged) row_qux)) = Fin 0
   \<and> upside_potential (score_of (metrics_of (sector_median_ps_of sample_merged) row_qux))
       = Fin (- 100)
   \<and> valuation_score (score_of (metrics_of (sector_median_ps_of sample_merged) row_qux)) = Fin 0
   \<and> (\<exists>c. venture_score (score_of (metrics_of (sector_median_ps_of sample_merged) row_qux))
             = Fin c \<and> c \<le> 60)"
proof -
  let ?s = "score_of (metrics_of (sector_median_ps_of sample_merged) row_qux)"
  have mem: "?s \<in> set (calculate_venture_score (calculate_financial_metrics sample_merged))"
    by (simp add: calculate_venture_score_def calculate_financial_metrics_def sample_merged_def)
  have fin: "finite_row ?s"
    by (simp add: finite_row_def)
  have pos: "fl_gt (mcap ?s) (Fin 0)"
    by simp
  have zero: "annualized_revenue ?s = Fin 0"
    by simp
  from C10_no_revenue [OF mem fin pos zero] show ?thesis .
qed

section \<open>merge_datasets: the properties\<close>

text \<open>
  The deduplicated revenue table has at most one row per key, the first of the
  revenue table with that key.
\<close>

lemma filter_drop_duplicates_seen:
  "filter (\<lambda>x. key x = k) (drop_duplicates_seen seen key xs) =
     (if k \<in> set seen then []
      else case find (\<lambda>x. key x = k) xs of None \<Rightarrow> [] | Some x \<Rightarrow> [x])"
proof (induction xs arbitrary: seen)
  case Nil
  show ?case by simp
next
  case (Cons x xs)
  show ?case
  proof (cases "key x \<in> set seen")
    case True
    then show ?thesis using Cons.IH [of seen] by auto
  next
    case False
    then show ?thesis using Cons.IH [of "key x # seen"] by auto
  qed
qed

lemma filter_drop_duplicates:
  "filter (\<lambda>x. key x = k) (drop_duplicates key xs) =
     (case find (\<lambda>x. key x = k) xs of None \<Rightarrow> [] | Some x \<Rightarrow> [x])"
  by (simp add: drop_duplicates_def filter_drop_duplicates_seen)

lemma merge_left_dedup:
  "merge_left protocols (drop_duplicates (\<lambda>f. name_lower (fee.name f)) fees_df) =
     map (name_pass fees_df) protocols"
proof -
  have "(let ms = filter (\<lambda>f. name_lower (fee.name f) = name_lower (name p))
                    (drop_duplicates (\<lambda>f. name_lower (fee.name f)) fees_df)
         in if ms = [] then [with_revenue p NaN NaN NaN]
            else map (\<lambda>f. with_revenue p (fee.total24h f) (fee.total7d f) (fee.total30d f)) ms)
        = [name_pass fees_df p]" for p
    by (simp add: filter_drop_duplicates name_pass_def split: option.split)
  then show ?thesis
    by (simp add: merge_left_def concat_map_singleton)
qed

text \<open>
  The loop over the unmatched indices changes each unmatched row, and only those, by
  \<open>fill_from_symbol\<close>.
\<close>

lemma fold_symbol_step_length [simp]:
  "length (fold (symbol_step F) is xs) = length xs"
  by (induction "is" arbitrary: xs) (simp_all add: symbol_step_def)

lemma fold_symbol_step_nth:
  assumes "distinct is" and "j < length xs"
  shows "fold (symbol_step F) is xs ! j =
           (if j \<in> set is then fill_from_symbol F (xs ! j) else xs ! j)"
  using assms
proof (induction "is" arbitrary: xs)
  case Nil
  show ?case by simp
next
  case (Cons i "is")
  let ?ys = "symbol_step F i xs"
  have len: "length ?ys = length xs" by (simp add: symbol_step_def)
  from Cons.prems have d: "distinct is" and ni: "i \<notin> set is" by simp_all
  have "fold (symbol_step F) (i # is) xs ! j = fold (symbol_step F) is ?ys ! j" by simp
  also have "\<dots> = (if j \<in> set is then fill_from_symbol F (?ys ! j) else ?ys ! j)"
    using Cons.IH [OF d, of ?ys] Cons.prems(2) len by simp
  also have "\<dots> = (if j \<in> set (i # is) then fill_from_symbol F (xs ! j) else xs ! j)"
  proof (cases "j = i")
    case True
    with ni Cons.prems(2) show ?thesis by (simp add: symbol_step_def)
  next
    case False
    then show ?thesis by (simp add: symbol_step_def)
  qed
  finally show ?case .
qed

lemma symbol_loop_eq:
  "fold (symbol_step F) (unmatched_indices merged) merged =
     map (\<lambda>r. if isna (total24h r) then fill_from_symbol F r else r) merged"
proof (rule nth_equalityI)
  show "length (fold (symbol_step F) (unmatched_indices merged) merged) =
        length (map (\<lambda>r. if isna (total24h r) then fill_from_symbol F r else r) merged)"
    by simp
next
  fix j
  assume "j < length (fold (symbol_step F) (unmatched_indices merged) merged)"
  then have j: "j < length merged" by simp
  have "distinct (unmatched_indices merged)"
    by (simp add: unmatched_indices_def)
  from fold_symbol_step_nth [OF this j, of F] j
  show "fold (symbol_step F) (unmatched_indices merged) merged ! j =
        map (\<lambda>r. if isna (total24h r) then fill_from_symbol F r else r) merged ! j"
    by (simp add: unmatched_indices_def)
qed

lemma no_unmatched_eq:
  assumes "\<not> list_ex (\<lambda>b. b) (map (\<lambda>r. isna (total24h r)) merged)"
  shows "merged = map (\<lambda>r. if isna (total24h r) then fill_from_symbol F r else r) merged"
proof -
  from assms have "\<forall>r \<in> set merged. \<not> isna (total24h r)"
    by (simp add: list_ex_iff)
  then show ?thesis
    by (simp add: map_idI)
qed

lemma merge_datasets_rows:
  "merge_datasets protocols_df fees_df =
     map (\<lambda>p. fillna_totals (symbol_pass fees_df (name_pass fees_df p))) protocols_df"
proof -
  let ?F = "drop_duplicates (\<lambda>f. symbol_lower (fee.symbol f)) fees_df"
  let ?m = "map (name_pass fees_df) protocols_df"
  have "(if list_ex (\<lambda>b. b) (map (\<lambda>r. isna (total24h r)) ?m)
         then fold (symbol_step ?F) (unmatched_indices ?m) ?m else ?m) =
        map (symbol_pass fees_df) ?m"
    using symbol_loop_eq [of ?F ?m] no_unmatched_eq [of ?m ?F]
    by (simp add: symbol_pass_def [abs_def])
  then show ?thesis
    by (simp only: merge_datasets_def Let_def merge_left_dedup map_map o_def)
qed

lemma truncate_with_revenue [simp]: "protocol.truncate (with_revenue p a b c) = p"
  by (simp add: with_revenue_def protocol.truncate_def protocol.extend_def)

lemma truncate_name_pass [simp]: "protocol.truncate (name_pass R p) = p"
  by (simp add: name_pass_def split: option.split)

lemma truncate_fill_from_symbol [simp]:
  "protocol.truncate (fill_from_symbol F r) = protocol.truncate r"
  by (simp add: fill_from_symbol_def protocol.truncate_def Let_def split: option.split)

lemma truncate_symbol_pass [simp]:
  "protocol.truncate (symbol_pass R r) = protocol.truncate r"
  by (simp add: symbol_pass_def)

lemma truncate_fillna_totals [simp]:
  "protocol.truncate (fillna_totals r) = protocol.truncate r"
  by (simp add: fillna_totals_def protocol.truncate_def)

text \<open>
  \<^bold>\<open>C1\<close>. For all protocol tables \<open>P\<close> and revenue tables \<open>R\<close>, \<open>merge_datasets P R\<close> has
  exactly \<open>length P\<close> rows, and its rows restricted to the protocol columns are the rows
  of \<open>P\<close> in the order of \<open>P\<close>: no protocol row is dropped, duplicated or moved, whatever
  \<open>P\<close> (duplicate names included) and \<open>R\<close> (the empty table included) are. The function
  is total: an unmatched row is not an error.
\<close>

theorem C1_row_preservation:
  "length (merge_datasets P R) = length P
   \<and> map protocol.truncate (merge_datasets P R) = P"
  by (simp add: merge_datasets_rows o_def)

theorem C1_row_preservation_witness:
  "length (merge_datasets (sample_protocols @ sample_protocols) []) = 8
   \<and> map protocol.truncate (merge_datasets (sample_protocols @ sample_protocols) []) =
       sample_protocols @ sample_protocols"
  using C1_row_preservation [of "sample_protocols @ sample_protocols" "[]"]
  by (simp add: sample_protocols_def)

lemma with_revenue_sel [simp]:
  "total24h (with_revenue p a b c) = a"
  "total7d (with_revenue p a b c) = b"
  "total30d (with_revenue p a b c) = c"
  "symbol (with_revenue p a b c) = symbol p"
  by (simp_all add: with_revenue_def protocol.extend_def merged_row.fields_def)

lemma find_in_set: "find Q xs = Some x \<Longrightarrow> x \<in> set xs"
  by (auto simp: find_Some_iff)

lemma row_name_matched:
  assumes "fee_no_nan f"
    and "find (\<lambda>f. name_lower (fee.name f) = name_lower (name p)) R = Some f"
  shows "has_revenue (fillna_totals (symbol_pass R (name_pass R p)))
           (fee.total24h f) (fee.total7d f) (fee.total30d f)"
  using assms
  by (simp add: name_pass_def symbol_pass_def fillna_totals_def has_revenue_def fee_no_nan_def
      fillna_def isna_def notna_def)

lemma row_symbol_matched:
  assumes "fee_no_nan f"
    and "find (\<lambda>f. name_lower (fee.name f) = name_lower (name p)) R = None"
    and "symbol p = Some s"
    and "find (\<lambda>f. symbol_lower (fee.symbol f) = Some (str_strip (str_lower s))) R = Some f"
  shows "has_revenue (fillna_totals (symbol_pass R (name_pass R p)))
           (fee.total24h f) (fee.total7d f) (fee.total30d f)"
  using assms
  by (simp add: name_pass_def symbol_pass_def fill_from_symbol_def filter_drop_duplicates
      fillna_totals_def has_revenue_def fee_no_nan_def fillna_def isna_def notna_def)

lemma row_unmatched:
  assumes "find (\<lambda>f. name_lower (fee.name f) = name_lower (name p)) R = None"
    and "\<forall>s. symbol p = Some s \<longrightarrow>
           find (\<lambda>f. symbol_lower (fee.symbol f) = Some (str_strip (str_lower s))) R = None"
  shows "has_revenue (fillna_totals (symbol_pass R (name_pass R p))) (Fin 0) (Fin 0) (Fin 0)"
  using assms
  by (cases "symbol p")
    (simp_all add: name_pass_def symbol_pass_def fill_from_symbol_def filter_drop_duplicates
      fillna_totals_def has_revenue_def fillna_def isna_def)



section \<open>The three functions and the tables of their caller\<close>

lemma holds_below: "wf_store s \<Longrightarrow> holds s a t \<Longrightarrow> a < next_id s"
  by (auto simp: wf_store_def holds_def not_le [symmetric])

lemma objects_modify_frame:
  "objects (modify_frame a g s) x = (if x = a then map_option g (objects s a) else objects s x)"
  by (simp add: modify_frame_def split: option.split)

lemma next_id_modify_frame: "next_id (modify_frame a g s) = next_id s"
  by (simp add: modify_frame_def split: option.split)

lemma fst_new_frame: "fst (new_frame f s) = next_id s"
  by (simp add: new_frame_def)

lemma objects_new_frame:
  "objects (snd (new_frame f s)) x = (if x = next_id s then Some f else objects s x)"
  by (simp add: new_frame_def)

lemma next_id_new_frame: "next_id (snd (new_frame f s)) = Suc (next_id s)"
  by (simp add: new_frame_def)

lemmas store_simps =
  objects_modify_frame next_id_modify_frame fst_new_frame objects_new_frame next_id_new_frame

lemma copy_frame_Some:
  "objects s a = Some f \<Longrightarrow> copy_frame a s = Some (next_id s, snd (new_frame f s))"
  by (simp add: copy_frame_def new_frame_def)

lemma content_assign_helper: "content (assign_helper c f) = content f"
  by (simp add: assign_helper_def)

lemma content_drop_helpers: "content (drop_helpers cs f) = content f"
  by (simp add: drop_helpers_def)

lemma content_on_merged:
  "content (on_merged g f) = (case content f of Merged M \<Rightarrow> g M | _ \<Rightarrow> content f)"
  by (simp add: on_merged_def split: table.split)

lemma content_on_metrics:
  "content (on_metrics g f) = (case content f of Metrics M \<Rightarrow> g M | _ \<Rightarrow> content f)"
  by (simp add: on_metrics_def split: table.split)

lemmas content_simps =
  content_assign_helper content_drop_helpers content_on_merged content_on_metrics

lemma frame_resultD:
  "frame_result s t res \<Longrightarrow>
     \<exists>b s'. res = Some (b, s') \<and> next_id s \<le> b \<and> unchanged_below s s' \<and> holds s' b t"
  by (cases res) (auto simp: frame_result_def)

lemma cfm_store:
  assumes "wf_store s" and "holds s a (Merged M)"
  shows "frame_result s (Metrics (calculate_financial_metrics M))
           (calculate_financial_metrics_store a s)"
proof -
  from assms have lt: "a < next_id s" by (rule holds_below)
  from assms(2) obtain f where f: "objects s a = Some f" "content f = Merged M"
    by (auto simp: holds_def)
  show ?thesis
    using lt f
    by (simp add: calculate_financial_metrics_store_def copy_frame_Some store_simps
        content_simps holds_def unchanged_below_def read_merged_def frame_result_def)
qed

lemma cvs_store:
  assumes "wf_store s" and "holds s a (Metrics M)"
  shows "frame_result s (Scored (calculate_venture_score M))
           (calculate_venture_score_store a s)"
proof -
  from assms have lt: "a < next_id s" by (rule holds_below)
  from assms(2) obtain f where f: "objects s a = Some f" "content f = Metrics M"
    by (auto simp: holds_def)
  show ?thesis
    using lt f
    by (simp add: calculate_venture_score_store_def copy_frame_Some store_simps
        content_simps holds_def unchanged_below_def read_metrics_def frame_result_def)
qed

lemma merge_store:
  assumes "wf_store s" and "holds s p (Protocols P)" and "holds s q (Fees R)"
  shows "frame_result s (Merged (merge_datasets P R)) (merge_datasets_store p q s)"
proof -
  from assms have lt: "p < next_id s" "q < next_id s" by (auto intro: holds_below)
  from assms(2) obtain f where f: "objects s p = Some f" "content f = Protocols P"
    by (auto simp: holds_def)
  from assms(3) obtain g where g: "objects s q = Some g" "content g = Fees R"
    by (auto simp: holds_def)
  show ?thesis
    using lt f g
    by (simp add: merge_datasets_store_def merge_datasets_def copy_frame_Some store_simps
        content_simps holds_def unchanged_below_def Let_def split_def
        read_fees_def read_protocols_def read_merged_def frame_result_def)
qed

lemma unchanged_belowD:
  "wf_store s \<Longrightarrow> unchanged_below s s' \<Longrightarrow> holds s a t \<Longrightarrow> objects s' a = objects s a"
  using holds_below [of s a t] by (simp add: unchanged_below_def)

text \<open>
  \<^bold>\<open>C9\<close>. None of the three functions changes a table of its caller. In a store where
  the arguments are objects, each call returns the address of an object that did not
  exist before the call, holding the table that the function computes; every object
  that existed before the call, the arguments among them, is after the call what it was
  before: the same rows, columns and values.
\<close>

theorem C9_no_mutation:
  assumes "wf_store s"
  shows "(holds s p (Protocols P) \<and> holds s q (Fees R) \<longrightarrow>
            (\<exists>b s'. merge_datasets_store p q s = Some (b, s')
               \<and> next_id s \<le> b \<and> unchanged_below s s'
               \<and> objects s' p = objects s p \<and> objects s' q = objects s q
               \<and> holds s' b (Merged (merge_datasets P R))))
       \<and> (holds s a (Merged M) \<longrightarrow>
            (\<exists>b s'. calculate_financial_metrics_store a s = Some (b, s')
               \<and> next_id s \<le> b \<and> unchanged_below s s'
               \<and> objects s' a = objects s a
               \<and> holds s' b (Metrics (calculate_financial_metrics M))))
       \<and> (holds s c (Metrics N) \<longrightarrow>
            (\<exists>b s'. calculate_venture_score_store c s = Some (b, s')
               \<and> next_id s \<le> b \<and> unchanged_below s s'
               \<and> objects s' c = objects s c
               \<and> holds s' b (Scored (calculate_venture_score N))))"
proof (intro conjI impI)
  assume h: "holds s p (Protocols P) \<and> holds s q (Fees R)"
  then have "frame_result s (Merged (merge_datasets P R)) (merge_datasets_store p q s)"
    using assms by (intro merge_store) simp_all
  from frame_resultD [OF this] obtain b s' where
    r: "merge_datasets_store p q s = Some (b, s')" "next_id s \<le> b" "unchanged_below s s'"
       "holds s' b (Merged (merge_datasets P R))"
    by blast
  from unchanged_belowD [OF assms r(3)] h
  have "objects s' p = objects s p" "objects s' q = objects s q"
    by blast+
  with r show "\<exists>b s'. merge_datasets_store p q s = Some (b, s')
               \<and> next_id s \<le> b \<and> unchanged_below s s'
               \<and> objects s' p = objects s p \<and> objects s' q = objects s q
               \<and> holds s' b (Merged (merge_datasets P R))"
    by blast
next
  assume h: "holds s a (Merged M)"
  from frame_resultD [OF cfm_store [OF assms h]] obtain b s' where
    r: "calculate_financial_metrics_store a s = Some (b, s')" "next_id s \<le> b"
       "unchanged_below s s'" "holds s' b (Metrics (calculate_financial_metrics M))"
    by blast
  from unchanged_belowD [OF assms r(3) h] r
  show "\<exists>b s'. calculate_financial_metrics_store a s = Some (b, s')
               \<and> next_id s \<le> b \<and> unchanged_below s s'
               \<and> objects s' a = objects s a
               \<and> holds s' b (Metrics (calculate_financial_metrics M))"
    by blast
next
  assume h: "holds s c (Metrics N)"
  from frame_resultD [OF cvs_store [OF assms h]] obtain b s' where
    r: "calculate_venture_score_store c s = Some (b, s')" "next_id s \<le> b"
       "unchanged_below s s'" "holds s' b (Scored (calculate_venture_score N))"
    by blast
  from unchanged_belowD [OF assms r(3) h] r
  show "\<exists>b s'. calculate_venture_score_store c s = Some (b, s')
               \<and> next_id s \<le> b \<and> unchanged_below s s'
               \<and> objects s' c = objects s c
               \<and> holds s' b (Scored (calculate_venture_score N))"
    by blast
qed

lemma sample_store_objects:
  "next_id sample_store = 4"
  "objects sample_store 0 = Some \<lparr>content = Protocols sample_protocols, helper_columns = []\<rparr>"
  "objects sample_store 1 = Some \<lparr>content = Fees sample_fees, helper_columns = []\<rparr>"
  "objects sample_store 2 = Some \<lparr>content = Merged sample_merged, helper_columns = []\<rparr>"
  "objects sample_store 3 = Some \<lparr>content = Metrics sample_metrics, helper_columns = []\<rparr>"
  "4 \<le> a \<Longrightarrow> objects sample_store a = None"
  by (simp_all add: sample_store_def empty_store_def store_simps)

theorem C9_no_mutation_witness:
  "wf_store sample_store
   \<and> (\<exists>b s'. merge_datasets_store 0 1 sample_store = Some (b, s') \<and> 4 \<le> b
         \<and> objects s' 0 = Some \<lparr>content = Protocols sample_protocols, helper_columns = []\<rparr>
         \<and> objects s' 1 = Some \<lparr>content = Fees sample_fees, helper_columns = []\<rparr>
         \<and> holds s' b (Merged (merge_datasets sample_protocols sample_fees)))
   \<and> (\<exists>b s'. calculate_financial_metrics_store 2 sample_store = Some (b, s') \<and> 4 \<le> b
         \<and> objects s' 2 = Some \<lparr>content = Merged sample_merged, helper_columns = []\<rparr>
         \<and> holds s' b (Metrics (calculate_financial_metrics sample_merged)))
   \<and> (\<exists>b s'. calculate_venture_score_store 3 sample_store = Some (b, s') \<and> 4 \<le> b
         \<and> objects s' 3 = Some \<lparr>content = Metrics sample_metrics, helper_columns = []\<rparr>
         \<and> holds s' b (Scored (calculate_venture_score sample_metrics)))"
proof -
  have wf: "wf_store sample_store"
    by (simp add: wf_store_def sample_store_objects)
  have h: "holds sample_store 0 (Protocols sample_protocols)"
    "holds sample_store 1 (Fees sample_fees)"
    "holds sample_store 2 (Merged sample_merged)"
    "holds sample_store 3 (Metrics sample_metrics)"
    by (simp_all add: holds_def sample_store_objects del: One_nat_def)
  note c9 = C9_no_mutation [OF wf, of 0 sample_protocols 1 sample_fees 2 sample_merged
      3 sample_metrics]
  from c9 h have
    "\<exists>b s'. merge_datasets_store 0 1 sample_store = Some (b, s')
       \<and> next_id sample_store \<le> b
       \<and> objects s' 0 = objects sample_store 0 \<and> objects s' 1 = objects sample_store 1
       \<and> holds s' b (Merged (merge_datasets sample_protocols sample_fees))"
    "\<exists>b s'. calculate_financial_metrics_store 2 sample_store = Some (b, s')
       \<and> next_id sample_store \<le> b \<and> objects s' 2 = objects sample_store 2
       \<and> holds s' b (Metrics (calculate_financial_metrics sample_merged))"
    "\<exists>b s'. calculate_venture_score_store 3 sample_store = Some (b, s')
       \<and> next_id sample_store \<le> b \<and> objects s' 3 = objects sample_store 3
       \<and> holds s' b (Scored (calculate_venture_score sample_metrics))"
    by blast+
  with wf show ?thesis
    by (simp only: sample_store_objects simp_thms)
qed

end
